theory Spec2Isabelle
  imports Complex_Main
begin

section \<open>Electron trajectories in a uniform magnetic field\<close>

text \<open>
  A shallow embedding of \<^verbatim>\<open>electron_simulation.py\<close>: the integrator
  \<^verbatim>\<open>simulate_trajectory\<close> and the sweep driver \<^verbatim>\<open>main\<close>.

  Numbers. The program computes in IEEE double precision (NumPy arrays of
  float64). The embedding computes in the exact reals: rounding, overflow to
  infinity and NaN are not modelled, and \<open>x / 0\<close> is \<open>0\<close> as everywhere in HOL
  (NumPy gives \<open>inf\<close> or \<open>nan\<close> there, with a warning and no exception). The
  parameter \<^verbatim>\<open>steps\<close> is a Python integer, modelled as \<open>int\<close>;
  \<^verbatim>\<open>range(steps)\<close> has \<open>nat steps\<close> elements, none when \<open>steps \<le> 0\<close>.

  Effects. The function has no \<^verbatim>\<open>raise\<close> and no parameter check; its
  locals \<^verbatim>\<open>pos\<close>, \<^verbatim>\<open>vel\<close>, \<^verbatim>\<open>x_traj\<close>, \<^verbatim>\<open>y_traj\<close> are updated in
  place, which the model writes as a record passed through the loop.
\<close>

subsection \<open>Module constants\<close>

text \<open>
  \<^verbatim>\<open>e = 1.602176634e-19\<close>, \<^verbatim>\<open>me = 9.10938356e-31\<close>, \<^verbatim>\<open>dt = 1e-11\<close>,
  \<^verbatim>\<open>steps = 5000\<close>, \<^verbatim>\<open>Ek_default = 20\<close>, \<^verbatim>\<open>B_default = 2e-3\<close>,
  \<^verbatim>\<open>cutoff_distance = 20\<close>. The globals \<^verbatim>\<open>dt\<close> and \<^verbatim>\<open>steps\<close> are the
  default values of the parameters of the same names; they are called
  \<open>dt_default\<close> and \<open>steps_default\<close> here, to keep them apart from the parameters.
\<close>

definition e :: real where
  "e = 1602176634 / 10 ^ 28"

definition me :: real where
  "me = 910938356 / 10 ^ 39"

definition dt_default :: real where
  "dt_default = 1 / 10 ^ 11"

definition steps_default :: int where
  "steps_default = 5000"

definition Ek_default :: real where
  "Ek_default = 20"

definition B_default :: real where
  "B_default = 2 / 10 ^ 3"

definition cutoff_distance :: real where
  "cutoff_distance = 20"

subsection \<open>The NumPy operations the integrator uses\<close>

type_synonym vec2 = "real \<times> real"
type_synonym vec3 = "real \<times> real \<times> real"

text \<open>
  \<^verbatim>\<open>np.cross(a, b)\<close> with a two-component \<open>a\<close> and a three-component \<open>b\<close>: the
  missing third component of \<open>a\<close> is taken as zero and the result has three
  components.
\<close>

fun np_cross :: "vec2 \<Rightarrow> vec3 \<Rightarrow> vec3" where
  "np_cross (a0, a1) (b0, b1, b2) =
     (a1 * b2 - 0 * b1, 0 * b0 - a0 * b2, a0 * b1 - a1 * b0)"

text \<open>The slice \<^verbatim>\<open>[:2]\<close> of a three-component array.\<close>

fun slice2 :: "vec3 \<Rightarrow> vec2" where
  "slice2 (c0, c1, c2) = (c0, c1)"

text \<open>Scalar times array, array divided by scalar, array times scalar, array plus array.\<close>

fun smul :: "real \<Rightarrow> vec2 \<Rightarrow> vec2" where
  "smul c (x, y) = (c * x, c * y)"

fun vdiv :: "vec2 \<Rightarrow> real \<Rightarrow> vec2" where
  "vdiv (x, y) c = (x / c, y / c)"

fun vmul :: "vec2 \<Rightarrow> real \<Rightarrow> vec2" where
  "vmul (x, y) c = (x * c, y * c)"

fun vadd :: "vec2 \<Rightarrow> vec2 \<Rightarrow> vec2" where
  "vadd (x, y) (u, w) = (x + u, y + w)"

text \<open>\<^verbatim>\<open>np.linalg.norm\<close> of a two-component array: the Euclidean norm.\<close>

fun linalg_norm :: "vec2 \<Rightarrow> real" where
  "linalg_norm (x, y) = sqrt (x\<^sup>2 + y\<^sup>2)"

subsection \<open>The integrator\<close>

record sim_state =
  pos :: vec2
  vel :: vec2
  x_traj :: "real list"
  y_traj :: "real list"

text \<open>
  The body of the \<^verbatim>\<open>for\<close> loop up to and including the two
  \<^verbatim>\<open>append\<close> calls (lines 57 to 66 of the source).
\<close>

definition loop_body :: "real \<Rightarrow> real \<Rightarrow> real \<Rightarrow> real \<Rightarrow> sim_state \<Rightarrow> sim_state" where
  "loop_body q m Bz dt s =
     (let F = smul q (slice2 (np_cross (vel s) (0, 0, Bz)));
          a = vdiv F m;
          vel' = vadd (vel s) (vmul a dt);
          pos' = vadd (pos s) (vmul vel' dt)
      in \<lparr>pos = pos', vel = vel',
          x_traj = x_traj s @ [fst pos' * 100],
          y_traj = y_traj s @ [snd pos' * 100]\<rparr>)"

text \<open>The test of line 69: \<^verbatim>\<open>np.linalg.norm(pos) > cutoff_distance\<close>.\<close>

definition too_far :: "sim_state \<Rightarrow> bool" where
  "too_far s \<longleftrightarrow> linalg_norm (pos s) > cutoff_distance"

text \<open>
  \<^verbatim>\<open>for _ in range(steps): ...; if ...: break\<close>, with the number of
  iterations still to run as the first argument.
\<close>

fun for_range :: "nat \<Rightarrow> real \<Rightarrow> real \<Rightarrow> real \<Rightarrow> real \<Rightarrow> sim_state \<Rightarrow> sim_state" where
  "for_range 0 q m Bz dt s = s"
| "for_range (Suc n) q m Bz dt s =
     (let s' = loop_body q m Bz dt s
      in if too_far s' then s' else for_range n q m Bz dt s')"

definition initial_state :: "real \<Rightarrow> sim_state" where
  "initial_state v0 = \<lparr>pos = (0, 0), vel = (v0, 0), x_traj = [], y_traj = []\<rparr>"

definition simulate_trajectory ::
    "real \<Rightarrow> real \<Rightarrow> real \<Rightarrow> real \<Rightarrow> int \<Rightarrow> real \<Rightarrow> real list \<times> real list" where
  "simulate_trajectory v0 q m Bz steps dt =
     (let s = for_range (nat steps) q m Bz dt (initial_state v0)
      in (x_traj s, y_traj s))"

text \<open>
  Specification devices, not part of the program. \<open>loop_iterations\<close> follows the
  recursion of \<open>for_range\<close> and counts the executions of the loop body;
  \<open>free_run\<close> is the state after \<open>k\<close> executions of the body with the cutoff
  test left out, so that \<open>position_after v0 q m Bz dt k\<close> is the position in
  meters after step \<open>k\<close> of a run from the initial state; \<open>run_iterations\<close> is the
  number of executions of the loop body in a call of \<^verbatim>\<open>simulate_trajectory\<close>.
\<close>

fun loop_iterations :: "nat \<Rightarrow> real \<Rightarrow> real \<Rightarrow> real \<Rightarrow> real \<Rightarrow> sim_state \<Rightarrow> nat" where
  "loop_iterations 0 q m Bz dt s = 0"
| "loop_iterations (Suc n) q m Bz dt s =
     (let s' = loop_body q m Bz dt s
      in if too_far s' then 1 else 1 + loop_iterations n q m Bz dt s')"

definition free_run :: "real \<Rightarrow> real \<Rightarrow> real \<Rightarrow> real \<Rightarrow> sim_state \<Rightarrow> nat \<Rightarrow> sim_state" where
  "free_run q m Bz dt s k = (loop_body q m Bz dt ^^ k) s"

definition position_after :: "real \<Rightarrow> real \<Rightarrow> real \<Rightarrow> real \<Rightarrow> real \<Rightarrow> nat \<Rightarrow> vec2" where
  "position_after v0 q m Bz dt k = pos (free_run q m Bz dt (initial_state v0) k)"

definition run_iterations :: "real \<Rightarrow> real \<Rightarrow> real \<Rightarrow> real \<Rightarrow> int \<Rightarrow> real \<Rightarrow> nat" where
  "run_iterations v0 q m Bz steps dt =
     loop_iterations (nat steps) q m Bz dt (initial_state v0)"

text \<open>Reflection of a loop state about the x-axis.\<close>

definition mirror :: "sim_state \<Rightarrow> sim_state" where
  "mirror s = \<lparr>pos = (fst (pos s), - snd (pos s)), vel = (fst (vel s), - snd (vel s)),
               x_traj = x_traj s, y_traj = map uminus (y_traj s)\<rparr>"

subsection \<open>The sweep driver\<close>

text \<open>
  \<^verbatim>\<open>main\<close> calls the integrator and hands each trajectory to a Matplotlib
  axes object. The model threads a log of these two kinds of call, in program
  order, through the four parts of \<^verbatim>\<open>main\<close>. A \<open>Simulate\<close> entry holds the
  arguments \<^verbatim>\<open>v0, q, m, Bz\<close> of a call of \<^verbatim>\<open>simulate_trajectory\<close> (the
  parameters \<^verbatim>\<open>steps\<close> and \<^verbatim>\<open>dt\<close> always take their defaults); a \<open>Plot\<close>
  entry holds the subplot index, the two coordinate lists and the colour of a
  call of \<^verbatim>\<open>plot\<close>. Figure set-up, labels (formatted floats), \<^verbatim>\<open>print\<close>,
  \<^verbatim>\<open>setup_axes\<close>, \<^verbatim>\<open>savefig\<close> and \<^verbatim>\<open>show\<close> are left out.
\<close>

datatype color = Viridis real | Named string

datatype event =
    Simulate real real real real
  | Plot "nat \<times> nat" "real list" "real list" color

text \<open>\<^verbatim>\<open>np.linspace(start, stop, num)\<close> for \<open>num \<ge> 2\<close>.\<close>

definition np_linspace :: "real \<Rightarrow> real \<Rightarrow> nat \<Rightarrow> real list" where
  "np_linspace start stop num =
     map (\<lambda>i. start + real i * ((stop - start) / real (num - 1))) [0..<num]"

text \<open>\<^verbatim>\<open>colors = plt.cm.viridis(np.linspace(0, 0.8, 3))\<close>: one colour per sample.\<close>

definition colors :: "color list" where
  "colors = map Viridis (np_linspace 0 (8 / 10) 3)"

definition call_simulate ::
    "real \<Rightarrow> real \<Rightarrow> real \<Rightarrow> real \<Rightarrow> event list \<Rightarrow> (real list \<times> real list) \<times> event list" where
  "call_simulate v0 q m Bz evs =
     (simulate_trajectory v0 q m Bz steps_default dt_default, evs @ [Simulate v0 q m Bz])"

definition call_plot ::
    "nat \<times> nat \<Rightarrow> real list \<Rightarrow> real list \<Rightarrow> color \<Rightarrow> event list \<Rightarrow> event list" where
  "call_plot ax x y c evs = evs @ [Plot ax x y c]"

text \<open>1. Magnetic field strength variation (lines 107 to 111).\<close>

definition field_axis :: "event list \<Rightarrow> event list" where
  "field_axis evs0 =
     fold (\<lambda>(Bz, color) evs.
             let v0 = sqrt (2 * Ek_default * e / me);
                 (r, evs1) = call_simulate v0 (- e) me Bz evs
             in call_plot (0, 0) (fst r) (snd r) color evs1)
          (zip [1 / 10 ^ 3, 2 / 10 ^ 3, 5 / 10 ^ 3] colors) evs0"

text \<open>2. Kinetic energy variation (lines 116 to 120).\<close>

definition energy_axis :: "event list \<Rightarrow> event list" where
  "energy_axis evs0 =
     fold (\<lambda>(Ek, color) evs.
             let v0 = sqrt (2 * Ek * e / me);
                 (r, evs1) = call_simulate v0 (- e) me B_default evs
             in call_plot (0, 1) (fst r) (snd r) color evs1)
          (zip [10, 20, 40] colors) evs0"

text \<open>3. Particle mass variation (lines 125 to 129).\<close>

definition mass_axis :: "event list \<Rightarrow> event list" where
  "mass_axis evs0 =
     fold (\<lambda>(m, color) evs.
             let v0 = sqrt (2 * Ek_default * e / m);
                 (r, evs1) = call_simulate v0 (- e) m B_default evs
             in call_plot (1, 0) (fst r) (snd r) color evs1)
          (zip [me, 2 * me, 4 * me] colors) evs0"

text \<open>4. Charge sign comparison (lines 134 to 140): two calls, then two plots.\<close>

definition charge_axis :: "event list \<Rightarrow> event list" where
  "charge_axis evs0 =
     (let v0 = sqrt (2 * Ek_default * e / me);
          (r1, evs1) = call_simulate v0 (- e) me B_default evs0;
          (r2, evs2) = call_simulate v0 e me B_default evs1;
          evs3 = call_plot (1, 1) (fst r1) (snd r1) (Named ''blue'') evs2
      in call_plot (1, 1) (fst r2) (snd r2) (Named ''red'') evs3)"

definition main :: "event list" where
  "main = charge_axis (mass_axis (energy_axis (field_axis [])))"

text \<open>The integrator calls of a log, and the trajectories handed to \<^verbatim>\<open>plot\<close>.\<close>

fun simulate_calls :: "event list \<Rightarrow> (real \<times> real \<times> real \<times> real) list" where
  "simulate_calls [] = []"
| "simulate_calls (Simulate v0 q m Bz # es) = (v0, q, m, Bz) # simulate_calls es"
| "simulate_calls (Plot ax x y c # es) = simulate_calls es"

fun plotted :: "event list \<Rightarrow> (real list \<times> real list) list" where
  "plotted [] = []"
| "plotted (Simulate v0 q m Bz # es) = plotted es"
| "plotted (Plot ax x y c # es) = (x, y) # plotted es"

section \<open>One iteration of the loop\<close>

lemma loop_body_fields:
  "pos (loop_body q m Bz dt s) =
     (fst (pos s) + (fst (vel s) + q * (snd (vel s) * Bz) / m * dt) * dt,
      snd (pos s) + (snd (vel s) + q * (- (fst (vel s) * Bz)) / m * dt) * dt)"
  "vel (loop_body q m Bz dt s) =
     (fst (vel s) + q * (snd (vel s) * Bz) / m * dt,
      snd (vel s) + q * (- (fst (vel s) * Bz)) / m * dt)"
  "x_traj (loop_body q m Bz dt s) = x_traj s @ [fst (pos (loop_body q m Bz dt s)) * 100]"
  "y_traj (loop_body q m Bz dt s) = y_traj s @ [snd (pos (loop_body q m Bz dt s)) * 100]"
  by (cases "pos s"; cases "vel s"; simp add: loop_body_def Let_def)+

text \<open>
  C1. With \<open>m\<close> nonzero, one iteration computes the force
  \<open>(q\<cdot>vy\<cdot>Bz, -q\<cdot>vx\<cdot>Bz)\<close>, divides it by \<open>m\<close>, adds \<open>a\<cdot>dt\<close> to the velocity,
  adds the updated velocity times \<open>dt\<close> to the position, and appends the new
  position times 100 to the two output lists; the loop then stops on the
  cutoff test or goes on from that state.
\<close>

theorem loop_iteration_semi_implicit:
  assumes "m \<noteq> 0"
  shows "\<exists>Fx Fy ax ay vx' vy' px' py' s'.
           Fx = q * snd (vel s) * Bz \<and> Fy = - q * fst (vel s) * Bz \<and>
           ax = Fx / m \<and> ay = Fy / m \<and>
           vx' = fst (vel s) + ax * dt \<and> vy' = snd (vel s) + ay * dt \<and>
           px' = fst (pos s) + vx' * dt \<and> py' = snd (pos s) + vy' * dt \<and>
           s' = \<lparr>pos = (px', py'), vel = (vx', vy'),
                 x_traj = x_traj s @ [px' * 100], y_traj = y_traj s @ [py' * 100]\<rparr> \<and>
           loop_body q m Bz dt s = s' \<and>
           for_range (Suc n) q m Bz dt s =
             (if sqrt (px'\<^sup>2 + py'\<^sup>2) > cutoff_distance then s'
              else for_range n q m Bz dt s')"
  by (cases "pos s"; cases "vel s")
     (simp add: loop_body_def Let_def too_far_def mult.assoc)

theorem loop_iteration_semi_implicit_witness:
  "(2::real) \<noteq> 0 \<and>
   loop_body 1 2 3 (1 / 2) (initial_state 4) =
     \<lparr>pos = (2, - 3 / 2), vel = (4, - 3), x_traj = [200], y_traj = [- 150]\<rparr>"
proof -
  have h: "(2::real) \<noteq> 0" by simp
  from loop_iteration_semi_implicit [OF h, where q = 1 and Bz = 3 and dt = "1 / 2"
      and s = "initial_state 4" and n = 0]
  show ?thesis
    by (elim exE conjE) (simp add: initial_state_def)
qed

section \<open>The loop as a bounded run of its body\<close>

text \<open>
  The cutoff is positive, so the test on the norm is a test on the sum of squares.
\<close>

lemma too_far_iff:
  "too_far s \<longleftrightarrow> (fst (pos s))\<^sup>2 + (snd (pos s))\<^sup>2 > 400"
proof -
  have "sqrt 400 = 20"
    using real_sqrt_abs [of 20] by simp
  then have "(20 < sqrt x) = (400 < x)" for x
    using real_sqrt_less_iff [of 400 x] by simp
  then show ?thesis
    by (cases "pos s") (simp add: too_far_def cutoff_distance_def)
qed

lemma free_run_0: "free_run q m Bz dt s 0 = s"
  by (simp add: free_run_def)

lemma free_run_Suc: "free_run q m Bz dt s (Suc k) = loop_body q m Bz dt (free_run q m Bz dt s k)"
  by (simp add: free_run_def)

lemma free_run_shift:
  "free_run q m Bz dt s (Suc k) = free_run q m Bz dt (loop_body q m Bz dt s) k"
  by (simp add: free_run_def funpow_swap1)

lemma for_range_free_run:
  "for_range n q m Bz dt s = free_run q m Bz dt s (loop_iterations n q m Bz dt s)"
proof (induction n arbitrary: s)
  case 0
  show ?case by (simp add: free_run_0)
next
  case (Suc n)
  show ?case
  proof (cases "too_far (loop_body q m Bz dt s)")
    case True
    then show ?thesis by (simp add: free_run_def Let_def)
  next
    case False
    then show ?thesis
      using Suc.IH [of "loop_body q m Bz dt s"] by (simp add: free_run_shift Let_def)
  qed
qed

lemma loop_iterations_le: "loop_iterations n q m Bz dt s \<le> n"
  by (induction n arbitrary: s) (simp_all add: Let_def)

lemma loop_iterations_pos: "0 < n \<Longrightarrow> 1 \<le> loop_iterations n q m Bz dt s"
  by (cases n) (simp_all add: Let_def)

lemma before_last_not_far:
  "1 \<le> j \<Longrightarrow> j < loop_iterations n q m Bz dt s \<Longrightarrow> \<not> too_far (free_run q m Bz dt s j)"
proof (induction n arbitrary: s j)
  case 0
  then show ?case by simp
next
  case (Suc n)
  let ?s' = "loop_body q m Bz dt s"
  from Suc.prems obtain i where j: "j = Suc i" by (cases j) auto
  from Suc.prems have nf: "\<not> too_far ?s'" and lt: "i < loop_iterations n q m Bz dt ?s'"
    by (auto simp: Let_def j split: if_splits)
  show ?case
  proof (cases i)
    case 0
    with nf show ?thesis by (simp add: j free_run_def)
  next
    case (Suc i')
    then have "\<not> too_far (free_run q m Bz dt ?s' i)"
      using Suc.IH [of i ?s'] lt by simp
    then show ?thesis by (simp add: j free_run_shift)
  qed
qed

lemma early_exit_far:
  "loop_iterations n q m Bz dt s < n \<Longrightarrow>
   too_far (free_run q m Bz dt s (loop_iterations n q m Bz dt s))"
proof (induction n arbitrary: s)
  case 0
  then show ?case by simp
next
  case (Suc n)
  show ?case
  proof (cases "too_far (loop_body q m Bz dt s)")
    case True
    then show ?thesis by (simp add: free_run_def Let_def)
  next
    case False
    with Suc.prems have "loop_iterations n q m Bz dt (loop_body q m Bz dt s) < n"
      by (simp add: Let_def)
    from Suc.IH [OF this] False show ?thesis
      by (simp add: free_run_shift Let_def)
  qed
qed

lemma x_traj_free_run:
  "x_traj (free_run q m Bz dt s k) =
     x_traj s @ map (\<lambda>j. fst (pos (free_run q m Bz dt s j)) * 100) [1..<Suc k]"
  by (induction k) (simp_all add: free_run_0 loop_body_fields(3) free_run_Suc)

lemma y_traj_free_run:
  "y_traj (free_run q m Bz dt s k) =
     y_traj s @ map (\<lambda>j. snd (pos (free_run q m Bz dt s j)) * 100) [1..<Suc k]"
  by (induction k) (simp_all add: free_run_0 loop_body_fields(4) free_run_Suc)

lemma linalg_norm_gt_cutoff:
  "linalg_norm p > cutoff_distance \<longleftrightarrow> (fst p)\<^sup>2 + (snd p)\<^sup>2 > 400"
  using too_far_iff [of "\<lparr>pos = p, vel = (0, 0), x_traj = [], y_traj = []\<rparr>"]
  by (simp add: too_far_def)


lemma simulate_fst:
  "fst (simulate_trajectory v0 q m Bz steps dt) =
     map (\<lambda>j. fst (position_after v0 q m Bz dt j) * 100)
       [1..<Suc (run_iterations v0 q m Bz steps dt)]"
  by (simp add: simulate_trajectory_def Let_def for_range_free_run x_traj_free_run
      position_after_def run_iterations_def initial_state_def)

lemma simulate_snd:
  "snd (simulate_trajectory v0 q m Bz steps dt) =
     map (\<lambda>j. snd (position_after v0 q m Bz dt j) * 100)
       [1..<Suc (run_iterations v0 q m Bz steps dt)]"
  by (simp add: simulate_trajectory_def Let_def for_range_free_run y_traj_free_run
      position_after_def run_iterations_def initial_state_def)

lemma length_simulate_fst:
  "length (fst (simulate_trajectory v0 q m Bz steps dt)) = run_iterations v0 q m Bz steps dt"
  by (simp add: simulate_fst)

lemma length_simulate_snd:
  "length (snd (simulate_trajectory v0 q m Bz steps dt)) = run_iterations v0 q m Bz steps dt"
  by (simp add: simulate_snd)

lemma too_far_position:
  "too_far (free_run q m Bz dt (initial_state v0) k) \<longleftrightarrow>
     linalg_norm (position_after v0 q m Bz dt k) > cutoff_distance"
  by (simp add: too_far_def position_after_def)

lemma sqrt_400: "sqrt 400 = 20"
  using real_sqrt_abs [of 20] by simp

lemma run_iterations_le: "run_iterations v0 q m Bz steps dt \<le> nat steps"
  by (simp add: run_iterations_def loop_iterations_le)

lemma run_iterations_pos: "1 \<le> steps \<Longrightarrow> 1 \<le> run_iterations v0 q m Bz steps dt"
  unfolding run_iterations_def by (rule loop_iterations_pos) simp

lemma run_iterations_none: "steps \<le> 0 \<Longrightarrow> run_iterations v0 q m Bz steps dt = 0"
  by (simp add: run_iterations_def)

section \<open>Length of the trajectory\<close>

text \<open>
  C3. For a step budget \<open>steps \<ge> 0\<close>, the trajectory has at most \<open>steps\<close> points,
  and fewer than \<open>steps\<close> exactly when at some step \<open>k\<close> with \<open>1 \<le> k < steps\<close> the
  Euclidean norm of the position in meters exceeded the cutoff distance.
\<close>

theorem trajectory_length_bound:
  assumes "0 \<le> steps"
  shows "int (length (fst (simulate_trajectory v0 q m Bz steps dt))) \<le> steps \<and>
         (int (length (fst (simulate_trajectory v0 q m Bz steps dt))) < steps \<longleftrightarrow>
            (\<exists>k. 1 \<le> k \<and> int k < steps \<and>
                 linalg_norm (position_after v0 q m Bz dt k) > cutoff_distance))"
proof -
  let ?s = "initial_state v0"
  let ?n = "nat steps"
  let ?it = "loop_iterations ?n q m Bz dt ?s"
  have len: "length (fst (simulate_trajectory v0 q m Bz steps dt)) = ?it"
    by (simp add: length_simulate_fst run_iterations_def)
  have le: "?it \<le> ?n" by (rule loop_iterations_le)
  have "(?it < ?n) \<longleftrightarrow>
          (\<exists>k. 1 \<le> k \<and> k < ?n \<and> too_far (free_run q m Bz dt ?s k))"
  proof
    assume lt: "?it < ?n"
    then have "0 < ?n" by simp
    then have "1 \<le> ?it" by (rule loop_iterations_pos)
    moreover from lt have "too_far (free_run q m Bz dt ?s ?it)" by (rule early_exit_far)
    ultimately show "\<exists>k. 1 \<le> k \<and> k < ?n \<and> too_far (free_run q m Bz dt ?s k)"
      using lt by blast
  next
    assume "\<exists>k. 1 \<le> k \<and> k < ?n \<and> too_far (free_run q m Bz dt ?s k)"
    then obtain k where k: "1 \<le> k" "k < ?n" "too_far (free_run q m Bz dt ?s k)" by blast
    show "?it < ?n"
    proof (rule ccontr)
      assume "\<not> ?it < ?n"
      with le have "?it = ?n" by simp
      with k(2) have "k < ?it" by simp
      from before_last_not_far [OF k(1) this] k(3) show False by simp
    qed
  qed
  moreover have "(k < ?n) = (int k < steps)" "(k \<le> ?n) = (int k \<le> steps)" for k
    using assms by linarith+
  ultimately show ?thesis
    using le len by (simp add: too_far_position)
qed

theorem trajectory_length_bound_witness:
  "0 \<le> (5::int) \<and>
   int (length (fst (simulate_trajectory 8 1 1 1 5 1))) < 5 \<and>
   (\<exists>k. 1 \<le> k \<and> int k < 5 \<and> linalg_norm (position_after 8 1 1 1 1 k) > cutoff_distance)"
proof -
  have p2: "position_after 8 1 1 1 1 2 = (8, - 24)"
    by (simp add: position_after_def free_run_def eval_nat_numeral loop_body_def
        initial_state_def Let_def)
  have ex: "\<exists>k. 1 \<le> k \<and> int k < 5 \<and>
      linalg_norm (position_after 8 1 1 1 1 k) > cutoff_distance"
    by (rule exI [of _ 2]) (simp add: p2 linalg_norm_gt_cutoff del: linalg_norm.simps)
  have h: "0 \<le> (5::int)" by simp
  from trajectory_length_bound [OF h, of 8 1 1 1 1] ex show ?thesis
    by simp
qed

section \<open>The cutoff test comes after the append\<close>

text \<open>
  C4. The cutoff is inclusive. Every point of the returned trajectory is the
  position after the step of the same index, times 100; every point but the
  last belongs to a position whose norm did not exceed the cutoff; when the
  loop ends before the step budget is used up, the last point belongs to a
  position whose norm exceeds the cutoff; and when step \<open>k\<close> is the first step whose
  position exceeds the cutoff, the trajectory has exactly \<open>k\<close> points and that
  step's point is its last element.
\<close>

theorem cutoff_inclusive:
  fixes v0 q m Bz dt :: real and steps :: int
  defines "xs \<equiv> fst (simulate_trajectory v0 q m Bz steps dt)"
      and "ys \<equiv> snd (simulate_trajectory v0 q m Bz steps dt)"
  shows "(\<forall>j < length xs. xs ! j = fst (position_after v0 q m Bz dt (Suc j)) * 100 \<and>
                           ys ! j = snd (position_after v0 q m Bz dt (Suc j)) * 100) \<and>
         (\<forall>j. Suc j < length xs \<longrightarrow>
               \<not> linalg_norm (position_after v0 q m Bz dt (Suc j)) > cutoff_distance) \<and>
         (length xs < nat steps \<longrightarrow>
               linalg_norm (position_after v0 q m Bz dt (length xs)) > cutoff_distance) \<and>
         (\<forall>k. 1 \<le> k \<and> k \<le> nat steps \<and>
               linalg_norm (position_after v0 q m Bz dt k) > cutoff_distance \<and>
               (\<forall>j. 1 \<le> j \<and> j < k \<longrightarrow>
                    \<not> linalg_norm (position_after v0 q m Bz dt j) > cutoff_distance) \<longrightarrow>
               length xs = k \<and>
               last xs = fst (position_after v0 q m Bz dt k) * 100 \<and>
               last ys = snd (position_after v0 q m Bz dt k) * 100)"
proof -
  let ?s = "initial_state v0"
  let ?n = "nat steps"
  let ?it = "loop_iterations ?n q m Bz dt ?s"
  have len: "length xs = ?it" "length ys = ?it"
    by (simp_all add: xs_def ys_def length_simulate_fst length_simulate_snd run_iterations_def)
  have pts: "xs ! j = fst (position_after v0 q m Bz dt (Suc j)) * 100 \<and>
             ys ! j = snd (position_after v0 q m Bz dt (Suc j)) * 100" if "j < length xs" for j
  proof -
    from that have j: "j < ?it" by (simp add: len)
    have "[1..<Suc ?it] ! j = Suc j"
      using j nth_upt [of 1 j "Suc ?it"] by simp
    with j show ?thesis
      by (simp add: xs_def ys_def simulate_fst simulate_snd run_iterations_def
          del: upt_Suc)
  qed
  have before: "\<not> linalg_norm (position_after v0 q m Bz dt (Suc j)) > cutoff_distance"
    if "Suc j < length xs" for j
    using before_last_not_far [of "Suc j" ?n q m Bz dt ?s] that
    by (simp add: len too_far_position)
  have early: "linalg_norm (position_after v0 q m Bz dt (length xs)) > cutoff_distance"
    if "length xs < ?n"
    using early_exit_far [of ?n q m Bz dt ?s] that by (simp add: len too_far_position)
  have first: "length xs = k \<and>
               last xs = fst (position_after v0 q m Bz dt k) * 100 \<and>
               last ys = snd (position_after v0 q m Bz dt k) * 100"
    if k: "1 \<le> k" "k \<le> ?n" "linalg_norm (position_after v0 q m Bz dt k) > cutoff_distance"
      and fst_k: "\<forall>j. 1 \<le> j \<and> j < k \<longrightarrow>
                    \<not> linalg_norm (position_after v0 q m Bz dt j) > cutoff_distance"
    for k
  proof -
    have pos_it: "1 \<le> length xs"
      using loop_iterations_pos [of ?n q m Bz dt ?s] k by (simp add: len)
    have "\<not> length xs < k"
    proof
      assume lt: "length xs < k"
      with k have "length xs < ?n" by simp
      from early [OF this] fst_k pos_it lt show False by blast
    qed
    moreover have "\<not> k < length xs"
    proof
      assume "k < length xs"
      with k(1) obtain j where "k = Suc j" "Suc j < length xs" by (cases k) auto
      with before [of j] k(3) show False by simp
    qed
    ultimately have eq: "length xs = k" by simp
    with k(1) obtain j where j: "k = Suc j" by (cases k) auto
    have ne: "xs \<noteq> []" "ys \<noteq> []" using eq j len by auto
    have "last xs = xs ! j" "last ys = ys ! j"
      using ne eq j len by (simp_all add: last_conv_nth)
    with pts [of j] eq j show ?thesis by simp
  qed
  from pts before early first show ?thesis by blast
qed


theorem cutoff_inclusive_witness:
  "1 \<le> (2::nat) \<and> 2 \<le> nat 5 \<and>
   linalg_norm (position_after 8 1 1 1 1 2) > cutoff_distance \<and>
   \<not> linalg_norm (position_after 8 1 1 1 1 1) > cutoff_distance \<and>
   length (fst (simulate_trajectory 8 1 1 1 5 1)) = 2 \<and>
   length (fst (simulate_trajectory 8 1 1 1 5 1)) < nat 5 \<and>
   fst (simulate_trajectory 8 1 1 1 5 1) ! 0 = 800 \<and>
   snd (simulate_trajectory 8 1 1 1 5 1) ! 0 = - 800 \<and>
   last (fst (simulate_trajectory 8 1 1 1 5 1)) = 800 \<and>
   last (snd (simulate_trajectory 8 1 1 1 5 1)) = - 2400"
proof -
  let ?xs = "fst (simulate_trajectory 8 1 1 1 5 1)"
  let ?ys = "snd (simulate_trajectory 8 1 1 1 5 1)"
  have p1: "position_after 8 1 1 1 1 (Suc 0) = (8, - 8)"
    by (simp add: position_after_def free_run_def loop_body_def initial_state_def Let_def)
  have p2: "position_after 8 1 1 1 1 2 = (8, - 24)"
    by (simp add: position_after_def free_run_def eval_nat_numeral loop_body_def
        initial_state_def Let_def)
  have far2: "linalg_norm (position_after 8 1 1 1 1 2) > cutoff_distance"
    by (simp add: p2 linalg_norm_gt_cutoff del: linalg_norm.simps)
  have near1: "\<not> linalg_norm (position_after 8 1 1 1 1 1) > cutoff_distance"
    by (simp add: p1 linalg_norm_gt_cutoff del: linalg_norm.simps)
  have first: "\<forall>j. 1 \<le> j \<and> j < 2 \<longrightarrow>
      \<not> linalg_norm (position_after 8 1 1 1 1 j) > cutoff_distance"
  proof (intro allI impI)
    fix j :: nat assume "1 \<le> j \<and> j < 2"
    then have "j = 1" by simp
    with near1 show "\<not> linalg_norm (position_after 8 1 1 1 1 j) > cutoff_distance"
      by simp
  qed
  note run = cutoff_inclusive [of 8 1 1 1 5 1]
  have ends: "length ?xs = 2 \<and>
        last ?xs = fst (position_after 8 1 1 1 1 2) * 100 \<and>
        last ?ys = snd (position_after 8 1 1 1 1 2) * 100"
    using run far2 first by simp
  then have "0 < length ?xs" by simp
  with run have "?xs ! 0 = fst (position_after 8 1 1 1 1 (Suc 0)) * 100 \<and>
                 ?ys ! 0 = snd (position_after 8 1 1 1 1 (Suc 0)) * 100"
    by blast
  with ends far2 near1 show ?thesis by (simp add: p1 p2)
qed

section \<open>Termination within the step budget\<close>

text \<open>
  C7. For every input, also with \<open>m = 0\<close>, the loop body is executed at most
  \<open>steps\<close> times (not at all for a negative \<open>steps\<close>): the result of the loop is the
  state after \<open>run_iterations\<close> executions of the body, that number is bounded by
  the length of \<^verbatim>\<open>range(steps)\<close> whatever the cutoff test answers, and it is the
  number of points returned. The model has no exception: the source raises
  none, and the function is total.
\<close>

theorem iteration_bound:
  "run_iterations v0 q m Bz steps dt \<le> nat steps \<and>
   int (run_iterations v0 q m Bz steps dt) \<le> max 0 steps \<and>
   for_range (nat steps) q m Bz dt (initial_state v0) =
     free_run q m Bz dt (initial_state v0) (run_iterations v0 q m Bz steps dt) \<and>
   length (fst (simulate_trajectory v0 q m Bz steps dt)) = run_iterations v0 q m Bz steps dt"
proof -
  have "run_iterations v0 q m Bz steps dt \<le> nat steps"
    by (rule run_iterations_le)
  moreover from this have "int (run_iterations v0 q m Bz steps dt) \<le> max 0 steps"
    by linarith
  ultimately show ?thesis
    by (simp add: for_range_free_run run_iterations_def length_simulate_fst)
qed

theorem iteration_bound_witness:
  "run_iterations 8 1 0 1 5 1 \<le> nat 5 \<and> run_iterations 8 1 0 1 5 1 = 3"
proof -
  have "run_iterations 8 1 0 1 5 1 = 3"
    by (simp add: run_iterations_def eval_nat_numeral loop_body_def
        initial_state_def Let_def too_far_iff)
  with iteration_bound [of 8 1 0 1 5 1] show ?thesis by simp
qed

section \<open>The empty trajectory\<close>

text \<open>
  C9. For a step budget \<open>steps \<ge> 0\<close> the returned trajectory is empty if and only
  if \<open>steps = 0\<close>: with \<open>steps \<ge> 1\<close> it has at least one point, since the first
  iteration appends before any test, and with \<open>steps = 0\<close> it has none. (A negative
  \<open>steps\<close> makes \<^verbatim>\<open>range(steps)\<close> empty, so the trajectory is empty then as well.)
\<close>

theorem empty_iff_zero_steps:
  "(0 \<le> steps \<longrightarrow>
      (fst (simulate_trajectory v0 q m Bz steps dt) = [] \<longleftrightarrow> steps = 0) \<and>
      (snd (simulate_trajectory v0 q m Bz steps dt) = [] \<longleftrightarrow> steps = 0)) \<and>
   (1 \<le> steps \<longrightarrow>
      1 \<le> length (fst (simulate_trajectory v0 q m Bz steps dt)) \<and>
      1 \<le> length (snd (simulate_trajectory v0 q m Bz steps dt))) \<and>
   (steps \<le> 0 \<longrightarrow> simulate_trajectory v0 q m Bz steps dt = ([], []))"
proof -
  have none: "simulate_trajectory v0 q m Bz steps dt = ([], [])" if "steps \<le> 0"
    using that by (simp add: simulate_trajectory_def initial_state_def)
  have some: "1 \<le> length (fst (simulate_trajectory v0 q m Bz steps dt)) \<and>
              1 \<le> length (snd (simulate_trajectory v0 q m Bz steps dt))" if "1 \<le> steps"
    using run_iterations_pos [OF that, of v0 q m Bz dt]
    by (simp only: length_simulate_fst length_simulate_snd)
  have "(fst (simulate_trajectory v0 q m Bz steps dt) = [] \<longleftrightarrow> steps = 0) \<and>
        (snd (simulate_trajectory v0 q m Bz steps dt) = [] \<longleftrightarrow> steps = 0)" if "0 \<le> steps"
  proof (cases "steps = 0")
    case True
    with none show ?thesis by simp
  next
    case False
    with that have "1 \<le> steps" by simp
    from some [OF this] False show ?thesis by (auto simp del: One_nat_def)
  qed
  with none some show ?thesis by blast
qed

theorem empty_iff_zero_steps_witness:
  "0 \<le> (3::int) \<and> 1 \<le> (3::int) \<and> fst (simulate_trajectory 8 1 1 1 3 1) \<noteq> [] \<and>
   0 \<le> (0::int) \<and> (0::int) \<le> 0 \<and> simulate_trajectory 8 1 1 1 0 1 = ([], [])"
  using empty_iff_zero_steps [of 3 8 1 1 1 1] empty_iff_zero_steps [of 0 8 1 1 1 1]
  by simp

section \<open>The two coordinate lists\<close>

text \<open>
  C10. The list of x-coordinates and the list of y-coordinates returned by the
  integrator have the same length for every input; and the comparison with the
  cutoff is strict: when the norm of the position after an iteration equals
  the cutoff distance exactly, the loop does not stop there but goes on with
  the next iteration.
\<close>

theorem coordinate_lists_aligned:
  "length (fst (simulate_trajectory v0 q m Bz steps dt)) =
     length (snd (simulate_trajectory v0 q m Bz steps dt)) \<and>
   (linalg_norm (pos (loop_body q m Bz dt s)) = cutoff_distance \<longrightarrow>
      \<not> too_far (loop_body q m Bz dt s) \<and>
      for_range (Suc n) q m Bz dt s = for_range n q m Bz dt (loop_body q m Bz dt s))"
  by (simp add: length_simulate_fst length_simulate_snd too_far_def Let_def)

theorem coordinate_lists_aligned_witness:
  "linalg_norm (pos (loop_body 0 1 0 1 (initial_state 20))) = cutoff_distance \<and>
   simulate_trajectory 20 0 1 0 2 1 = ([2000, 4000], [0, 0])"
proof -
  have eq: "linalg_norm (pos (loop_body 0 1 0 1 (initial_state 20))) = cutoff_distance"
    by (simp add: loop_body_def initial_state_def Let_def cutoff_distance_def sqrt_400)
  with coordinate_lists_aligned [of 20 0 1 0 2 1 "initial_state 20" "Suc 0"]
  have "for_range (Suc (Suc 0)) 0 1 0 1 (initial_state 20) =
          for_range (Suc 0) 0 1 0 1 (loop_body 0 1 0 1 (initial_state 20))"
    by blast
  then have "simulate_trajectory 20 0 1 0 2 1 = ([2000, 4000], [0, 0])"
    by (simp add: simulate_trajectory_def eval_nat_numeral loop_body_def
        initial_state_def Let_def too_far_iff)
  with eq show ?thesis by simp
qed

section \<open>Parameters are not validated\<close>

text \<open>
  C2, as stated, fails: \<^verbatim>\<open>simulate_trajectory\<close> has no parameter check and no
  \<^verbatim>\<open>raise\<close>. With \<open>dt = -1\<close> and \<open>m = -1\<close> (and \<open>v0 = q = Bz = 1\<close>,
  \<open>steps = 2\<close>) the loop body runs twice and two points are returned.
\<close>

theorem invalid_parameter_counterexample:
  "(- 1 :: real) \<le> 0 \<and>
   simulate_trajectory 1 1 (- 1) 1 2 (- 1) = ([- 100, - 100], [100, 300]) \<and>
   run_iterations 1 1 (- 1) 1 2 (- 1) = 2"
  by (simp add: simulate_trajectory_def run_iterations_def eval_nat_numeral loop_body_def
      initial_state_def Let_def too_far_iff)

text \<open>
  C2, amended. With \<open>dt \<le> 0\<close> or \<open>m \<le> 0\<close> the integrator raises no error and
  runs as for any other values: for \<open>steps \<ge> 1\<close> the loop body is executed at
  least once and at least one point is returned; for \<open>steps \<le> 0\<close> no iteration
  is executed and the empty trajectory is returned. (At \<open>m = 0\<close> NumPy divides
  to \<open>inf\<close> or \<open>nan\<close> where the model divides to \<open>0\<close>; the first iteration and its
  append happen in both.)
\<close>

theorem no_parameter_validation:
  assumes "dt \<le> 0 \<or> m \<le> 0"
  shows "(1 \<le> steps \<longrightarrow>
            1 \<le> run_iterations v0 q m Bz steps dt \<and>
            1 \<le> length (fst (simulate_trajectory v0 q m Bz steps dt)) \<and>
            1 \<le> length (snd (simulate_trajectory v0 q m Bz steps dt))) \<and>
         (steps \<le> 0 \<longrightarrow>
            run_iterations v0 q m Bz steps dt = 0 \<and>
            simulate_trajectory v0 q m Bz steps dt = ([], []))"
proof -
  have "1 \<le> run_iterations v0 q m Bz steps dt" if "1 \<le> steps"
    using that by (rule run_iterations_pos)
  moreover have "simulate_trajectory v0 q m Bz steps dt = ([], [])" if "steps \<le> 0"
    using that by (simp add: simulate_trajectory_def initial_state_def)
  ultimately show ?thesis
    by (simp add: length_simulate_fst length_simulate_snd run_iterations_none
        del: One_nat_def)
qed

theorem no_parameter_validation_witness:
  "((- 1 :: real) \<le> 0 \<or> (- 1 :: real) \<le> 0) \<and>
   (1::int) \<le> 2 \<and>
   1 \<le> run_iterations 1 1 (- 1) 1 2 (- 1) \<and>
   1 \<le> length (fst (simulate_trajectory 1 1 (- 1) 1 2 (- 1))) \<and>
   (0::int) \<le> 0 \<and>
   run_iterations 1 1 (- 1) 1 0 (- 1) = 0 \<and>
   simulate_trajectory 1 1 (- 1) 1 0 (- 1) = ([], [])"
proof -
  have h: "(- 1 :: real) \<le> 0 \<or> (- 1 :: real) \<le> 0" by simp
  from no_parameter_validation [OF h, of 2 1 1 1] no_parameter_validation [OF h, of 0 1 1 1]
  show ?thesis by simp
qed

section \<open>Reversing the charge\<close>

lemma loop_body_mirror:
  "loop_body (- q) m Bz dt (mirror s) = mirror (loop_body q m Bz dt s)"
proof (rule sim_state.equality)
  show "pos (loop_body (- q) m Bz dt (mirror s)) = pos (mirror (loop_body q m Bz dt s))"
    by (simp only: loop_body_fields mirror_def sim_state.simps fst_conv snd_conv)
       (simp add: algebra_simps)
  show "vel (loop_body (- q) m Bz dt (mirror s)) = vel (mirror (loop_body q m Bz dt s))"
    by (simp only: loop_body_fields mirror_def sim_state.simps fst_conv snd_conv)
       (simp add: algebra_simps)
  show "x_traj (loop_body (- q) m Bz dt (mirror s)) = x_traj (mirror (loop_body q m Bz dt s))"
    by (simp only: loop_body_fields mirror_def sim_state.simps fst_conv snd_conv)
       (simp add: algebra_simps)
  show "y_traj (loop_body (- q) m Bz dt (mirror s)) = y_traj (mirror (loop_body q m Bz dt s))"
    by (simp only: loop_body_fields mirror_def sim_state.simps fst_conv snd_conv)
       (simp add: algebra_simps)
  show "sim_state.more (loop_body (- q) m Bz dt (mirror s)) =
        sim_state.more (mirror (loop_body q m Bz dt s))"
    by simp
qed

lemma too_far_mirror: "too_far (mirror s) = too_far s"
  by (simp add: too_far_iff mirror_def)

lemma for_range_mirror:
  "for_range n (- q) m Bz dt (mirror s) = mirror (for_range n q m Bz dt s)"
  by (induction n arbitrary: s) (simp_all add: Let_def loop_body_mirror too_far_mirror)

lemma mirror_initial_state: "mirror (initial_state v0) = initial_state v0"
  by (simp add: mirror_def initial_state_def)

text \<open>
  C6. Two calls that differ only in the sign of \<open>q\<close> return trajectories that
  are mirror images about the x-axis: the same number of points, the same
  x-coordinates point by point, and negated y-coordinates point by point.
\<close>

theorem charge_sign_mirror:
  "fst (simulate_trajectory v0 (- q) m Bz steps dt) =
     fst (simulate_trajectory v0 q m Bz steps dt) \<and>
   snd (simulate_trajectory v0 (- q) m Bz steps dt) =
     map uminus (snd (simulate_trajectory v0 q m Bz steps dt)) \<and>
   length (fst (simulate_trajectory v0 (- q) m Bz steps dt)) =
     length (fst (simulate_trajectory v0 q m Bz steps dt)) \<and>
   length (snd (simulate_trajectory v0 (- q) m Bz steps dt)) =
     length (snd (simulate_trajectory v0 q m Bz steps dt))"
proof -
  have "for_range (nat steps) (- q) m Bz dt (initial_state v0) =
          mirror (for_range (nat steps) q m Bz dt (initial_state v0))"
    using for_range_mirror [of "nat steps" q m Bz dt "initial_state v0"]
    by (simp add: mirror_initial_state)
  then have "fst (simulate_trajectory v0 (- q) m Bz steps dt) =
               fst (simulate_trajectory v0 q m Bz steps dt)"
    and "snd (simulate_trajectory v0 (- q) m Bz steps dt) =
               map uminus (snd (simulate_trajectory v0 q m Bz steps dt))"
    by (simp_all add: simulate_trajectory_def Let_def mirror_def)
  then show ?thesis by simp
qed

theorem charge_sign_mirror_witness:
  "simulate_trajectory 8 1 1 1 5 1 = ([800, 800], [- 800, - 2400]) \<and>
   simulate_trajectory 8 (- 1) 1 1 5 1 = ([800, 800], [800, 2400])"
proof -
  have a: "simulate_trajectory 8 1 1 1 5 1 = ([800, 800], [- 800, - 2400])"
    by (simp add: simulate_trajectory_def eval_nat_numeral loop_body_def
        initial_state_def Let_def too_far_iff)
  from charge_sign_mirror [of 8 1 1 1 5 1] a
  have "fst (simulate_trajectory 8 (- 1) 1 1 5 1) = [800, 800]"
    and "snd (simulate_trajectory 8 (- 1) 1 1 5 1) = [800, 2400]"
    by simp_all
  then have "simulate_trajectory 8 (- 1) 1 1 5 1 = ([800, 800], [800, 2400])"
    by (simp add: prod_eq_iff)
  with a show ?thesis by simp
qed

section \<open>Zero charge\<close>





section \<open>The sweep driver\<close>

lemma colors_eq: "colors = [Viridis 0, Viridis (2 / 5), Viridis (4 / 5)]"
  by (simp add: colors_def np_linspace_def eval_nat_numeral upt_rec)

lemma main_log:
  "main =
    (let v = sqrt (2 * Ek_default * e / me);
         run = (\<lambda>v0 q m Bz. simulate_trajectory v0 q m Bz steps_default dt_default);
         plt = (\<lambda>ax r c. Plot ax (fst r) (snd r) c) in
     [Simulate v (- e) me (1 / 10 ^ 3), plt (0, 0) (run v (- e) me (1 / 10 ^ 3)) (Viridis 0),
      Simulate v (- e) me (2 / 10 ^ 3), plt (0, 0) (run v (- e) me (2 / 10 ^ 3)) (Viridis (2 / 5)),
      Simulate v (- e) me (5 / 10 ^ 3), plt (0, 0) (run v (- e) me (5 / 10 ^ 3)) (Viridis (4 / 5)),
      Simulate (sqrt (2 * 10 * e / me)) (- e) me B_default,
      plt (0, 1) (run (sqrt (2 * 10 * e / me)) (- e) me B_default) (Viridis 0),
      Simulate (sqrt (2 * 20 * e / me)) (- e) me B_default,
      plt (0, 1) (run (sqrt (2 * 20 * e / me)) (- e) me B_default) (Viridis (2 / 5)),
      Simulate (sqrt (2 * 40 * e / me)) (- e) me B_default,
      plt (0, 1) (run (sqrt (2 * 40 * e / me)) (- e) me B_default) (Viridis (4 / 5)),
      Simulate (sqrt (2 * Ek_default * e / me)) (- e) me B_default,
      plt (1, 0) (run (sqrt (2 * Ek_default * e / me)) (- e) me B_default) (Viridis 0),
      Simulate (sqrt (2 * Ek_default * e / (2 * me))) (- e) (2 * me) B_default,
      plt (1, 0) (run (sqrt (2 * Ek_default * e / (2 * me))) (- e) (2 * me) B_default)
        (Viridis (2 / 5)),
      Simulate (sqrt (2 * Ek_default * e / (4 * me))) (- e) (4 * me) B_default,
      plt (1, 0) (run (sqrt (2 * Ek_default * e / (4 * me))) (- e) (4 * me) B_default)
        (Viridis (4 / 5)),
      Simulate v (- e) me B_default,
      Simulate v e me B_default,
      plt (1, 1) (run v (- e) me B_default) (Named ''blue''),
      plt (1, 1) (run v e me B_default) (Named ''red'')])"
  unfolding main_def field_axis_def energy_axis_def mass_axis_def charge_axis_def
    colors_eq call_simulate_def call_plot_def Let_def
  by (simp del: mult_cancel_left)

text \<open>
  C8, as stated, fails: one execution of \<^verbatim>\<open>main\<close> calls the integrator
  eleven times, not twelve (three calls on each of the field, energy and mass
  axes and two on the charge axis), and plots eleven trajectories.
\<close>

theorem sweep_twelve_counterexample:
  "length (simulate_calls main) = 11 \<and> length (simulate_calls main) \<noteq> 12 \<and>
   length (plotted main) = 11"
  by (simp add: main_log Let_def)

text \<open>
  C8, amended. One execution of \<^verbatim>\<open>main\<close> performs exactly eleven integrator
  calls: one per entry of the field-strength, energy and mass axes (three each)
  and two for the charge-sign axis, each with \<open>v0 = sqrt (2\<cdot>Ek\<cdot>e / m)\<close>; and the
  trajectories handed to \<^verbatim>\<open>plot\<close> are exactly the results of these calls, each
  once and in the order of the calls.
\<close>

theorem sweep_driver_eleven_runs:
  "simulate_calls main =
     [(sqrt (2 * Ek_default * e / me), - e, me, 1 / 10 ^ 3),
      (sqrt (2 * Ek_default * e / me), - e, me, 2 / 10 ^ 3),
      (sqrt (2 * Ek_default * e / me), - e, me, 5 / 10 ^ 3),
      (sqrt (2 * 10 * e / me), - e, me, B_default),
      (sqrt (2 * 20 * e / me), - e, me, B_default),
      (sqrt (2 * 40 * e / me), - e, me, B_default),
      (sqrt (2 * Ek_default * e / me), - e, me, B_default),
      (sqrt (2 * Ek_default * e / (2 * me)), - e, 2 * me, B_default),
      (sqrt (2 * Ek_default * e / (4 * me)), - e, 4 * me, B_default),
      (sqrt (2 * Ek_default * e / me), - e, me, B_default),
      (sqrt (2 * Ek_default * e / me), e, me, B_default)] \<and>
   length (simulate_calls main) = 11 \<and>
   plotted main =
     map (\<lambda>(v0, q, m, Bz). simulate_trajectory v0 q m Bz steps_default dt_default)
       (simulate_calls main) \<and>
   length (plotted main) = 11"
  by (simp add: main_log Let_def del: mult_cancel_left)

end
